theory Spec2Isabelle
  imports Main
begin

section \<open>Go values used by package binding\<close>

text \<open>
  A Go \<^verbatim>\<open>error\<close> made by \<^verbatim>\<open>errors.New\<close> or \<^verbatim>\<open>fmt.Errorf\<close>, or handed back
  by a library call, is its text; \<^verbatim>\<open>nil\<close> is \<open>None\<close> of \<open>error option\<close>.
\<close>

datatype error = ErrorString (errorText: string)

text \<open>
  A call either returns or panics. \<open>PanicError\<close> is \<^verbatim>\<open>panic(err)\<close>; \<open>PanicReflect\<close>
  is a panic raised inside package reflect (a method called on the zero Value, a value
  that is not assignable to the place it is stored in).
\<close>

datatype panic = PanicError error | PanicReflect

datatype 'a outcome = Panic panic | Return 'a

subsection \<open>reflect.Kind, reflect.Type, reflect.Value\<close>

datatype kind =
    Invalid | Bool | IntKind | Int8 | Int16 | Int32 | Int64
  | Uint | Uint8 | Uint16 | Uint32 | Uint64 | Uintptr
  | Float32 | Float64 | Complex64 | Complex128
  | Array | Chan | Func | Interface | Map | Ptr | Slice | String | Struct | UnsafePointer

text \<open>
  \<open>IntKind\<close> is \<^verbatim>\<open>reflect.Int\<close> (\<open>Int\<close> is taken by set intersection).
  A \<^verbatim>\<open>reflect.Type\<close> is compared by identity, and neither its kind nor what
  \<^verbatim>\<open>t.String()\<close> prints decides it: two types declared with the same name in two
  scopes, or in two packages of the same name, print alike and are different types.
  \<open>typeId\<close> is that identity (in Go, which type descriptor it is), \<open>Kind\<close> and
  \<open>typeString\<close> are \<^verbatim>\<open>t.Kind()\<close> and \<^verbatim>\<open>t.String()\<close>; two types are the same type
  only when all three agree. The built-in types and \<^verbatim>\<open>time.Time\<close> have the identity 0.
\<close>

datatype rtype = RType (Kind: kind) (typeString: string) (typeId: nat)

text \<open>
  A \<^verbatim>\<open>reflect.Value\<close>: the zero Value \<^verbatim>\<open>reflect.Value{}\<close>, or a value of some type with
  its payload.
\<close>

datatype 'd rvalue = ZeroValue | Val rtype 'd

section \<open>func.go\<close>

text \<open>\<^verbatim>\<open>kindTypeMap\<close>, lines 21-36: the built-in type of each basic kind.\<close>

definition kindTypeMap :: "kind \<rightharpoonup> rtype" where
  "kindTypeMap = map_of
     [(String, RType String ''string'' 0),
      (Bool, RType Bool ''bool'' 0),
      (Float32, RType Float32 ''float32'' 0),
      (Float64, RType Float64 ''float64'' 0),
      (IntKind, RType IntKind ''int'' 0),
      (Int64, RType Int64 ''int64'' 0),
      (Int32, RType Int32 ''int32'' 0),
      (Int16, RType Int16 ''int16'' 0),
      (Int8, RType Int8 ''int8'' 0),
      (Uint, RType Uint ''uint'' 0),
      (Uint64, RType Uint64 ''uint64'' 0),
      (Uint32, RType Uint32 ''uint32'' 0),
      (Uint16, RType Uint16 ''uint16'' 0),
      (Uint8, RType Uint8 ''uint8'' 0)]"

text \<open>
  A converter \<^verbatim>\<open>func(string, bool) (reflect.Value, error)\<close> returns both results, as
  Go does. The registry \<^verbatim>\<open>typeUnmarshalFuncs\<close> is a map from types to converters.
\<close>

type_synonym 'd unmarshalFunc = "string \<Rightarrow> bool \<Rightarrow> 'd rvalue \<times> error option"

type_synonym 'd registry = "rtype \<rightharpoonup> 'd unmarshalFunc"

text \<open>
  \<^verbatim>\<open>unmarshalSlice\<close>, lines 59-72. The slice under construction is the list of the
  values appended so far. \<^verbatim>\<open>reflect.Append\<close> panics when the value is the zero Value or
  is not assignable to the element type; assignability is reflect's
  \<^verbatim>\<open>Type.AssignableTo\<close>, a parameter here (value type first, element type second).
  The result is the pair the Go function returns: the slice built so far and the error.
\<close>

fun unmarshalSlice_loop ::
  "(rtype \<Rightarrow> rtype \<Rightarrow> bool) \<Rightarrow> 'd unmarshalFunc \<Rightarrow> rtype \<Rightarrow> bool \<Rightarrow> 'd rvalue list \<Rightarrow> string list
    \<Rightarrow> ('d rvalue list \<times> error option) outcome" where
  "unmarshalSlice_loop assignable fn t looseZeroMode v [] = Return (v, None)"
| "unmarshalSlice_loop assignable fn t looseZeroMode v (s # a) =
     (case fn s looseZeroMode of
        (vv, Some err) \<Rightarrow> Return (v, Some err)
      | (ZeroValue, None) \<Rightarrow> Panic PanicReflect
      | (Val tt d, None) \<Rightarrow>
          if assignable tt t
          then unmarshalSlice_loop assignable fn t looseZeroMode (v @ [Val tt d]) a
          else Panic PanicReflect)"

definition unmarshalSlice ::
  "(rtype \<Rightarrow> rtype \<Rightarrow> bool) \<Rightarrow> 'd unmarshalFunc \<Rightarrow> rtype \<Rightarrow> string list \<Rightarrow> bool
    \<Rightarrow> ('d rvalue list \<times> error option) outcome" where
  "unmarshalSlice assignable fn t a looseZeroMode =
     unmarshalSlice_loop assignable fn t looseZeroMode [] a"

text \<open>
  \<^verbatim>\<open>RegTypeUnmarshal\<close>, lines 96-124. The result is what the call returns (or its
  panic), the registry afterwards, and the calls made to \<^verbatim>\<open>fn\<close>, in order, with their
  arguments. \<open>regTest\<close> is the part from line 113 on, reached when the switch on the
  kind does not return.
\<close>

type_synonym 'd regResult = "error option outcome \<times> 'd registry \<times> (string \<times> bool) list"

definition regTest :: "rtype \<Rightarrow> 'd unmarshalFunc \<Rightarrow> 'd registry \<Rightarrow> 'd regResult" where
  "regTest t fn funcs =
     (case fn '''' True of
        (vv, Some err) \<Rightarrow>
          (Return (Some (ErrorString (''test fail: '' @ errorText err))), funcs, [('''', True)])
      | (ZeroValue, None) \<Rightarrow> (Panic PanicReflect, funcs, [('''', True)])
      | (Val tt d, None) \<Rightarrow>
          if tt \<noteq> t
          then (Return (Some (ErrorString
                  (''test fail: expect return value type is '' @ typeString t
                    @ '', but got '' @ typeString tt))), funcs, [('''', True)])
          else (Return None, funcs(t \<mapsto> fn), [('''', True)]))"

definition RegTypeUnmarshal :: "rtype \<Rightarrow> 'd unmarshalFunc \<Rightarrow> 'd registry \<Rightarrow> 'd regResult" where
  "RegTypeUnmarshal t fn funcs =
     (if Kind t \<in> {String, Bool, Float32, Float64, IntKind, Int64, Int32, Int16, Int8,
                    Uint, Uint64, Uint32, Uint16, Uint8}
      then (case kindTypeMap (Kind t) of
              None \<Rightarrow> (Return (Some (ErrorString ''basic type not supported in map'')), funcs, [])
            | Some otherType \<Rightarrow>
                if t = otherType
                then (Return (Some (ErrorString ''registration type cannot be a basic type'')),
                      funcs, [])
                else regTest t fn funcs)
      else if Kind t = Ptr
      then (Return (Some (ErrorString ''registration type cannot be a pointer type'')), funcs, [])
      else regTest t fn funcs)"

text \<open>\<^verbatim>\<open>MustRegTypeUnmarshal\<close>, lines 88-93: panics with the error of the registration.\<close>

definition MustRegTypeUnmarshal ::
  "rtype \<Rightarrow> 'd unmarshalFunc \<Rightarrow> 'd registry \<Rightarrow> unit outcome \<times> 'd registry \<times> (string \<times> bool) list" where
  "MustRegTypeUnmarshal t fn funcs =
     (case RegTypeUnmarshal t fn funcs of
        (Panic p, funcs', calls) \<Rightarrow> (Panic p, funcs', calls)
      | (Return (Some err), funcs', calls) \<Rightarrow> (Panic (PanicError err), funcs', calls)
      | (Return None, funcs', calls) \<Rightarrow> (Return (), funcs', calls))"

text \<open>
  \<^verbatim>\<open>init\<close>, lines 126-137. \<open>timeType\<close> is \<^verbatim>\<open>reflect.TypeOf(time.Time{})\<close>, a struct
  type. The standard library's \<^verbatim>\<open>time.Parse(time.RFC3339, v)\<close> and the zero time
  \<^verbatim>\<open>time.Time{}\<close> are parameters: \<open>parse v\<close> is \<open>Inr t\<close> when \<open>v\<close> is valid RFC3339 and
  \<open>Inl err\<close> otherwise. \<open>timeUnmarshal\<close> is the function literal registered by \<^verbatim>\<open>init\<close>.
\<close>

definition timeType :: rtype where
  "timeType = RType Struct ''time.Time'' 0"

definition timeUnmarshal :: "(string \<Rightarrow> error + 'd) \<Rightarrow> 'd \<Rightarrow> 'd unmarshalFunc" where
  "timeUnmarshal parse zero v emptyAsZero =
     (if v = '''' \<and> emptyAsZero then (Val timeType zero, None)
      else (case parse v of
              Inl err \<Rightarrow> (ZeroValue, Some err)
            | Inr t \<Rightarrow> (Val timeType t, None)))"

definition init ::
  "(string \<Rightarrow> error + 'd) \<Rightarrow> 'd \<Rightarrow> 'd registry \<Rightarrow> unit outcome \<times> 'd registry \<times> (string \<times> bool) list" where
  "init parse zero funcs = MustRegTypeUnmarshal timeType (timeUnmarshal parse zero) funcs"

section \<open>receiver.go\<close>

text \<open>
  The source kinds, lines 17-42 (type \<^verbatim>\<open>in\<close>, a \<^verbatim>\<open>uint8\<close>; the name is a keyword
  here). \<open>inValue\<close> is the number \<^verbatim>\<open>iota\<close> gives each constant and \<open>maxIn\<close> the one
  after the last: the length of the arrays indexed by a source kind.
\<close>

datatype param_in = auto | path | query | header | cookie | rawBody | form | json | protobuf

fun inValue :: "param_in \<Rightarrow> nat" where
  "inValue auto = 0"
| "inValue path = 1"
| "inValue query = 2"
| "inValue header = 3"
| "inValue cookie = 4"
| "inValue rawBody = 5"
| "inValue form = 6"
| "inValue json = 7"
| "inValue protobuf = 8"

definition maxIn :: nat where
  "maxIn = 9"

definition allIn :: "param_in list" where
  "allIn = [auto, path, query, header, cookie, rawBody, form, json, protobuf]"

text \<open>\<^verbatim>\<open>type codec in\<close>, lines 44-51; \<^verbatim>\<open>codec(0)\<close> is the value of \<^verbatim>\<open>auto\<close>.\<close>

datatype codec = Codec param_in

definition bodyUnsupport :: codec where "bodyUnsupport = Codec auto"
definition bodyForm :: codec where "bodyForm = Codec form"
definition bodyJSON :: codec where "bodyJSON = Codec json"
definition bodyProtobuf :: codec where "bodyProtobuf = Codec protobuf"

text \<open>
  Modelled from the spec: the declarations of \<^verbatim>\<open>paramInfo\<close> and of the elements of
  \<^verbatim>\<open>tagInfos\<close>, which are in a file that is not among the sources. The fields are the
  ones receiver.go reads and writes, with \<open>paramName\<close> and \<open>required\<close> for the
  FieldDescriptor's "source key name" and "required flag". An error the descriptor does
  not hold yet is \<open>None\<close>, and the type \<open>'e\<close> is what \<^verbatim>\<open>bindErrFactory\<close> builds. Of
  \<^verbatim>\<open>reflect.StructField\<close> the code reads the name and the embedded flag. The receiver
  is declared at lines 53-57.
\<close>

record structField =
  Name :: string
  Anonymous :: bool

record 'e tagInfo =
  paramIn :: param_in
  paramName :: string
  required :: bool
  namePath :: string
  requiredError :: "'e option"
  typeError :: "'e option"
  cannotError :: "'e option"
  contentTypeError :: "'e option"

record 'e paramInfo =
  fieldSelector :: string
  structField :: structField
  tagInfos :: "'e tagInfo list"
  bindErrFactory :: "string \<Rightarrow> string \<Rightarrow> 'e"

record 'e receiver =
  hasQuery :: bool
  hasCookie :: bool
  hasPath :: bool
  hasBody :: bool
  hasVd :: bool
  params :: "'e paramInfo list"

text \<open>\<^verbatim>\<open>getParam\<close>, lines 59-66: \<open>None\<close> is the nil pointer.\<close>

definition getParam :: "'e receiver \<Rightarrow> string \<Rightarrow> 'e paramInfo option" where
  "getParam r sel = find (\<lambda>p. fieldSelector p = sel) (params r)"

subsection \<open>The request and the accessor helpers\<close>

text \<open>
  A byte slice is a list of characters and \<^verbatim>\<open>goutil.BytesToString\<close> the identity; a
  nil slice is the empty list. \<^verbatim>\<open>url.Values\<close> is an association list and \<open>None\<close> the
  nil map, which the code tests for. Of the request the helpers read what
  \<^verbatim>\<open>req.URL.Query()\<close> and \<^verbatim>\<open>req.Cookies()\<close> return, \<^verbatim>\<open>req.PostForm\<close> and
  \<^verbatim>\<open>req.Form\<close>; the body stream is \<open>Body\<close>.
\<close>

type_synonym bytes = string

type_synonym urlValues = "(string \<times> string list) list"

type_synonym httpCookie = "string \<times> string"

record 'b request =
  URLQuery :: urlValues
  Cookies :: "httpCookie list"
  PostForm :: "urlValues option"
  Form :: "urlValues option"
  Body :: 'b

text \<open>
  What a helper does to the request, besides returning: each call it makes on the
  request is recorded, in order.
\<close>

datatype access = ReadBody | ParseForm | ReadQuery | ReadCookies

text \<open>
  \<^verbatim>\<open>getBody\<close>, lines 100-109. \<^verbatim>\<open>copyBody\<close> is defined in another file of the package
  and is a parameter: it reads the body stream and returns the bytes and an error,
  leaving the request with a fresh stream.
\<close>

definition getBody ::
  "('b request \<Rightarrow> (bytes \<times> error option) \<times> 'b request) \<Rightarrow> 'e receiver \<Rightarrow> 'b request
    \<Rightarrow> (bytes \<times> string \<times> error option) \<times> 'b request \<times> access list" where
  "getBody copyBody r req =
     (if hasBody r
      then (case copyBody req of
              ((bodyBytes, err), req') \<Rightarrow>
                if err = None
                then ((bodyBytes, bodyBytes, None), req', [ReadBody])
                else ((bodyBytes, '''', None), req', [ReadBody]))
      else (([], '''', None), req, []))"

text \<open>
  \<^verbatim>\<open>getPostForm\<close>, lines 131-139. \<^verbatim>\<open>req.ParseMultipartForm\<close> is the standard
  library's and a parameter; the code drops what it returns.
\<close>

definition defaultMaxMemory :: nat where
  "defaultMaxMemory = 32 * 2 ^ 20"

definition getPostForm ::
  "(nat \<Rightarrow> 'b request \<Rightarrow> 'b request) \<Rightarrow> 'e receiver \<Rightarrow> 'b request \<Rightarrow> codec
    \<Rightarrow> (urlValues option \<times> error option) \<times> 'b request \<times> access list" where
  "getPostForm parseMultipartForm r req bodyCodec =
     (if bodyCodec = bodyForm \<and> hasBody r
      then (if PostForm req = None
            then (let req' = parseMultipartForm defaultMaxMemory req
                  in ((Form req', None), req', [ParseForm]))
            else ((Form req, None), req, []))
      else ((None, None), req, []))"

text \<open>\<^verbatim>\<open>getQuery\<close> and \<^verbatim>\<open>getCookies\<close>, lines 141-153.\<close>

definition getQuery :: "'e receiver \<Rightarrow> 'b request \<Rightarrow> urlValues option \<times> access list" where
  "getQuery r req = (if hasQuery r then (Some (URLQuery req), [ReadQuery]) else (None, []))"

definition getCookies :: "'e receiver \<Rightarrow> 'b request \<Rightarrow> httpCookie list \<times> access list" where
  "getCookies r req = (if hasCookie r then (Cookies req, [ReadCookies]) else ([], []))"

text \<open>
  \<^verbatim>\<open>prebindBody\<close>, lines 111-125. \<open>isMessage\<close> says whether \<^verbatim>\<open>structPointer\<close>
  implements \<^verbatim>\<open>proto.Message\<close>; \<open>value\<close> is the record both arguments of the Go
  function refer to. \<^verbatim>\<open>jsonparam.Assign\<close> (after \<^verbatim>\<open>gjson.Parse\<close>) and
  \<^verbatim>\<open>proto.Unmarshal\<close> are parameters: each changes the record, and the second returns
  an error. The result is the error, the record afterwards, and the decoders called.
\<close>

datatype decoder = JSONAssign | ProtoUnmarshal

definition prebindBody ::
  "(string \<Rightarrow> 't \<Rightarrow> 't) \<Rightarrow> (bytes \<Rightarrow> 't \<Rightarrow> error option \<times> 't) \<Rightarrow> bool \<Rightarrow> 't \<Rightarrow> codec \<Rightarrow> bytes
    \<Rightarrow> error option \<times> 't \<times> decoder list" where
  "prebindBody jsonAssign protoUnmarshal isMessage value bodyCodec bodyBytes =
     (if bodyCodec = bodyJSON then (None, jsonAssign bodyBytes value, [JSONAssign])
      else if bodyCodec = bodyProtobuf
      then (if \<not> isMessage
            then (Some (ErrorString ''protobuf content type is not supported''), value, [])
            else (case protoUnmarshal bodyBytes value of
                    (Some err, value') \<Rightarrow> (Some err, value', [ProtoUnmarshal])
                  | (None, value') \<Rightarrow> (None, value', [ProtoUnmarshal])))
      else (None, value, []))"

subsection \<open>initParams\<close>

text \<open>
  Modelled from the spec: \<^verbatim>\<open>paramInfo.name\<close>, whose file is not among the sources. "Each
  FieldDescriptor's source key defaults to the field's own identifier unless an explicit
  annotation overrides it": the key of the first descriptor of that source kind, when it
  has one, and the field's identifier otherwise.
\<close>

definition name :: "'e paramInfo \<Rightarrow> param_in \<Rightarrow> string" where
  "name p k =
     (case find (\<lambda>info. paramIn info = k) (tagInfos p) of
        None \<Rightarrow> Name (structField p)
      | Some info \<Rightarrow> if paramName info = '''' then Name (structField p) else paramName info)"

text \<open>
  Modelled from the spec: \<^verbatim>\<open>tagexpr.FieldSelector.Split\<close> and
  \<^verbatim>\<open>tagexpr.JoinFieldSelector\<close>, of a package that is not among the sources. A field
  selector is "a dotted sequence of field identifiers from the record root to a leaf":
  \<open>Split\<close> gives the identifiers before the last one and the last one, and a selector
  with no dot has no identifiers before it. \<open>splitDot\<close> is \<^verbatim>\<open>strings.Split(s, ".")\<close>.
\<close>

fun splitDot :: "string \<Rightarrow> string list" where
  "splitDot [] = [[]]"
| "splitDot (c # cs) =
     (if c = CHR ''.'' then [] # splitDot cs
      else (case splitDot cs of [] \<Rightarrow> [[c]] | w # ws \<Rightarrow> (c # w) # ws))"

definition Split :: "string \<Rightarrow> string list \<times> string" where
  "Split f =
     (let a = splitDot f; idx = length a - 1
      in if idx > 0 then (take idx a, a ! idx) else ([], f))"

definition JoinFieldSelector :: "string \<Rightarrow> string \<Rightarrow> string" where
  "JoinFieldSelector a b = a @ ''.'' @ b"

text \<open>
  \<^verbatim>\<open>initParams\<close>, lines 155-190. The first loop (lines 156-166) builds \<^verbatim>\<open>names\<close>: for
  each parameter that is not an embedded field, the array of its names, one per source
  kind of \<open>allIn\<close>. A key that is not in the Go map reads as the array of empty strings.
\<close>

definition nameArray :: "'e paramInfo \<Rightarrow> param_in \<Rightarrow> string" where
  "nameArray p = fold (\<lambda>k a. a(k := name p k)) allIn (\<lambda>k. '''')"

definition initNames :: "'e paramInfo list \<Rightarrow> (string \<rightharpoonup> (param_in \<Rightarrow> string))" where
  "initNames ps =
     fold (\<lambda>p names. if Anonymous (structField p) then names
                      else names(fieldSelector p \<mapsto> nameArray p)) ps Map.empty"

definition namesAt :: "(string \<rightharpoonup> (param_in \<Rightarrow> string)) \<Rightarrow> string \<Rightarrow> param_in \<Rightarrow> string" where
  "namesAt names fs k = (case names fs of None \<Rightarrow> '''' | Some a \<Rightarrow> a k)"

text \<open>
  The loop over \<^verbatim>\<open>paths\<close>, lines 172-182, for one descriptor: the state is \<^verbatim>\<open>fs\<close> and
  the descriptor's \<^verbatim>\<open>namePath\<close>; the result is the \<^verbatim>\<open>namePath\<close> after the loop.
\<close>

fun pathsLoop ::
  "(string \<rightharpoonup> (param_in \<Rightarrow> string)) \<Rightarrow> param_in \<Rightarrow> string list \<Rightarrow> string \<Rightarrow> string \<Rightarrow> string" where
  "pathsLoop names k [] fs np = np"
| "pathsLoop names k (s # paths) fs np =
     (let fs' = (if fs = '''' then s else JoinFieldSelector fs s);
          nm = namesAt names fs' k
      in pathsLoop names k paths fs' (if nm \<noteq> '''' then nm @ ''.'' else np))"

text \<open>The body of the loop over \<^verbatim>\<open>p.tagInfos\<close>, lines 170-188.\<close>

definition initTagInfo ::
  "(string \<rightharpoonup> (param_in \<Rightarrow> string)) \<Rightarrow> 'e paramInfo \<Rightarrow> string list \<Rightarrow> 'e tagInfo \<Rightarrow> 'e tagInfo" where
  "initTagInfo names p paths info =
     (let np = pathsLoop names (paramIn info) paths '''' (namePath info)
               @ name p (paramIn info)
      in info\<lparr>namePath := np,
              requiredError := Some (bindErrFactory p np ''missing required parameter''),
              typeError := Some (bindErrFactory p np ''parameter type does not match binding data''),
              cannotError := Some (bindErrFactory p np ''parameter cannot be bound''),
              contentTypeError :=
                Some (bindErrFactory p np ''does not support binding to the content type body'')\<rparr>)"

definition initParams :: "'e receiver \<Rightarrow> 'e receiver" where
  "initParams r =
     (let names = initNames (params r)
      in r\<lparr>params :=
             map (\<lambda>p. p\<lparr>tagInfos :=
                          map (initTagInfo names p (fst (Split (fieldSelector p)))) (tagInfos p)\<rparr>)
                 (params r)\<rparr>)"

text \<open>
  Modelled from the spec: the error a binder builds, whose declaration is not among the
  sources. A BoundError is "category tag, FieldPath or qualified name, human message";
  the test TestJSON compares it as a \<^verbatim>\<open>binding.Error\<close> with the fields below, and the
  factory of the binder it makes with \<^verbatim>\<open>binding.New(nil)\<close> fills \<^verbatim>\<open>ErrType\<close> with
  "binding failed".
\<close>

record bindingError =
  ErrType :: string
  FailField :: string
  Msg :: string

definition defaultBindErrFactory :: "string \<Rightarrow> string \<Rightarrow> bindingError" where
  "defaultBindErrFactory failField msg =
     \<lparr>ErrType = ''binding failed'', FailField = failField, Msg = msg\<rparr>"

section \<open>Resolution of a field with no source annotation\<close>

text \<open>
  Modelled from the spec: the request-time resolution of a field whose source kind is
  \<open>auto\<close>; the file that binds a request is not among the sources. An accessor answers a
  key with the ordered values found, or \<open>None\<close> when the source does not have the key.
  "It resolves, in priority order, by attempting path, query, header, cookie, form, raw
  JSON-subtree lookup using the field's own identifier as the key, accepting the first
  source that reports presence." The JSON subtree of the raw body is the source kind
  \<open>json\<close>. The result names the source that answered and its values.
\<close>

type_synonym accessor = "string \<Rightarrow> string list option"

definition autoOrder :: "param_in list" where
  "autoOrder = [path, query, header, cookie, form, json]"

fun firstPresent ::
  "(param_in \<Rightarrow> accessor) \<Rightarrow> string \<Rightarrow> param_in list \<Rightarrow> (param_in \<times> string list) option" where
  "firstPresent sources key [] = None"
| "firstPresent sources key (k # ks) =
     (case sources k key of
        Some vs \<Rightarrow> Some (k, vs)
      | None \<Rightarrow> firstPresent sources key ks)"

definition resolveAuto :: "(param_in \<Rightarrow> accessor) \<Rightarrow> 'e paramInfo \<Rightarrow> (param_in \<times> string list) option" where
  "resolveAuto sources p = firstPresent sources (Name (structField p)) autoOrder"

section \<open>The diagnostic name as the specification words it\<close>

text \<open>
  For comparison with \<open>pathsLoop\<close>: the dotted name "built by prefixing with each
  ancestor's own resolved key name for that same SourceKind", where an embedded record
  (which has no entry in \<^verbatim>\<open>names\<close>) contributes no segment. \<open>spec_prefix\<close> visits the
  ancestors as the code does and appends a segment for each one that has a name;
  \<open>spec_namePaths\<close> gives the name of every descriptor of a plan.
\<close>

fun spec_prefix ::
  "(string \<rightharpoonup> (param_in \<Rightarrow> string)) \<Rightarrow> param_in \<Rightarrow> string list \<Rightarrow> string \<Rightarrow> string" where
  "spec_prefix names k [] fs = ''''"
| "spec_prefix names k (s # paths) fs =
     (let fs' = (if fs = '''' then s else JoinFieldSelector fs s);
          nm = namesAt names fs' k
      in (if nm \<noteq> '''' then nm @ ''.'' else '''') @ spec_prefix names k paths fs')"

definition spec_namePaths :: "'e receiver \<Rightarrow> string list list" where
  "spec_namePaths r =
     (let names = initNames (params r)
      in map (\<lambda>p. map (\<lambda>info. spec_prefix names (paramIn info) (fst (Split (fieldSelector p))) ''''
                                 @ name p (paramIn info))
                       (tagInfos p))
             (params r))"

section \<open>Two compiled plans with fields nested three deep\<close>

text \<open>
  The parameters of a record whose field \<^verbatim>\<open>X\<close> is a record with a field \<^verbatim>\<open>Y\<close>, itself
  a record with a field \<^verbatim>\<open>Z\<close> of type string and tag \<^verbatim>\<open>query:"z"\<close>, before
  \<^verbatim>\<open>initParams\<close> runs: one parameter per field, the nested records included, in the
  order of the fields and keyed by the dotted selector. No field is embedded.
\<close>

definition nestedQueryPlan :: "bindingError receiver" where
  "nestedQueryPlan =
     \<lparr>hasQuery = True, hasCookie = False, hasPath = False, hasBody = False, hasVd = False,
      params =
        [\<lparr>fieldSelector = ''X'', structField = \<lparr>Name = ''X'', Anonymous = False\<rparr>,
          tagInfos = [], bindErrFactory = defaultBindErrFactory\<rparr>,
         \<lparr>fieldSelector = ''X.Y'', structField = \<lparr>Name = ''Y'', Anonymous = False\<rparr>,
          tagInfos = [], bindErrFactory = defaultBindErrFactory\<rparr>,
         \<lparr>fieldSelector = ''X.Y.Z'', structField = \<lparr>Name = ''Z'', Anonymous = False\<rparr>,
          tagInfos = [\<lparr>paramIn = query, paramName = ''z'', required = False, namePath = '''',
                       requiredError = None, typeError = None, cannotError = None,
                       contentTypeError = None\<rparr>],
          bindErrFactory = defaultBindErrFactory\<rparr>]\<rparr>"

text \<open>
  The parameters of a record whose field \<^verbatim>\<open>A\<close> (tag \<^verbatim>\<open>json:"a"\<close>) is a record with a
  field \<^verbatim>\<open>B\<close> (tag \<^verbatim>\<open>json:"b"\<close>), itself a record with a field \<^verbatim>\<open>C\<close> of type string
  and tag \<^verbatim>\<open>json:"c,required"\<close>.
\<close>

definition nestedRequiredPlan :: "bindingError receiver" where
  "nestedRequiredPlan =
     \<lparr>hasQuery = False, hasCookie = False, hasPath = False, hasBody = True, hasVd = False,
      params =
        [\<lparr>fieldSelector = ''A'', structField = \<lparr>Name = ''A'', Anonymous = False\<rparr>,
          tagInfos = [\<lparr>paramIn = json, paramName = ''a'', required = False, namePath = '''',
                       requiredError = None, typeError = None, cannotError = None,
                       contentTypeError = None\<rparr>],
          bindErrFactory = defaultBindErrFactory\<rparr>,
         \<lparr>fieldSelector = ''A.B'', structField = \<lparr>Name = ''B'', Anonymous = False\<rparr>,
          tagInfos = [\<lparr>paramIn = json, paramName = ''b'', required = False, namePath = '''',
                       requiredError = None, typeError = None, cannotError = None,
                       contentTypeError = None\<rparr>],
          bindErrFactory = defaultBindErrFactory\<rparr>,
         \<lparr>fieldSelector = ''A.B.C'', structField = \<lparr>Name = ''C'', Anonymous = False\<rparr>,
          tagInfos = [\<lparr>paramIn = json, paramName = ''c'', required = True, namePath = '''',
                       requiredError = None, typeError = None, cannotError = None,
                       contentTypeError = None\<rparr>],
          bindErrFactory = defaultBindErrFactory\<rparr>]\<rparr>"

section \<open>The converter registry (func.go)\<close>

subsection \<open>The built-in types and the kind check\<close>

lemma ran_kindTypeMap:
  "ran kindTypeMap =
     {RType String ''string'' 0, RType Bool ''bool'' 0, RType Float32 ''float32'' 0,
      RType Float64 ''float64'' 0, RType IntKind ''int'' 0, RType Int64 ''int64'' 0,
      RType Int32 ''int32'' 0, RType Int16 ''int16'' 0, RType Int8 ''int8'' 0,
      RType Uint ''uint'' 0, RType Uint64 ''uint64'' 0, RType Uint32 ''uint32'' 0,
      RType Uint16 ''uint16'' 0, RType Uint8 ''uint8'' 0}"
  unfolding kindTypeMap_def by (subst ran_distinct) auto

lemma kindTypeMap_basic:
  "k \<in> {String, Bool, Float32, Float64, IntKind, Int64, Int32, Int16, Int8,
         Uint, Uint64, Uint32, Uint16, Uint8} \<Longrightarrow> kindTypeMap k \<noteq> None"
  by (cases k) (simp_all add: kindTypeMap_def)

lemma kindTypeMap_Kind: "kindTypeMap k = Some t \<Longrightarrow> Kind t = k"
  by (cases k) (auto simp: kindTypeMap_def)

lemma kindTypeMap_ran_self: "t \<in> ran kindTypeMap \<Longrightarrow> kindTypeMap (Kind t) = Some t"
proof -
  assume "t \<in> ran kindTypeMap"
  then obtain k where k: "kindTypeMap k = Some t" by (auto simp: ran_def)
  with kindTypeMap_Kind [OF k] show ?thesis by simp
qed

lemma kindTypeMap_ran_kind:
  "t \<in> ran kindTypeMap \<Longrightarrow>
   Kind t \<in> {String, Bool, Float32, Float64, IntKind, Int64, Int32, Int16, Int8,
              Uint, Uint64, Uint32, Uint16, Uint8}"
proof -
  assume "t \<in> ran kindTypeMap"
  then have k: "kindTypeMap (Kind t) = Some t" by (rule kindTypeMap_ran_self)
  show ?thesis
    using k by (cases "Kind t") (simp_all add: kindTypeMap_def)
qed

lemma RegTypeUnmarshal_checked:
  assumes "t \<notin> ran kindTypeMap" and "Kind t \<noteq> Ptr"
  shows "RegTypeUnmarshal t fn funcs = regTest t fn funcs"
proof (cases "Kind t \<in> {String, Bool, Float32, Float64, IntKind, Int64, Int32, Int16, Int8,
              Uint, Uint64, Uint32, Uint16, Uint8}")
  case True
  then obtain other where o: "kindTypeMap (Kind t) = Some other"
    using kindTypeMap_basic [of "Kind t"] by blast
  then have "other \<noteq> t" using assms(1) by (auto simp: ran_def)
  with True o show ?thesis unfolding RegTypeUnmarshal_def by simp
next
  case False
  with assms(2) show ?thesis unfolding RegTypeUnmarshal_def by simp
qed

subsection \<open>The self-test, case by case\<close>

lemma regTest_ok:
  "fn '''' True = (Val t d, None) \<Longrightarrow>
   regTest t fn funcs = (Return None, funcs(t \<mapsto> fn), [('''', True)])"
  by (simp add: regTest_def)

lemma regTest_err:
  "fn '''' True = (vv, Some err) \<Longrightarrow>
   regTest t fn funcs =
     (Return (Some (ErrorString (''test fail: '' @ errorText err))), funcs, [('''', True)])"
  by (cases vv) (simp_all add: regTest_def)

lemma regTest_zero:
  "fn '''' True = (ZeroValue, None) \<Longrightarrow>
   regTest t fn funcs = (Panic PanicReflect, funcs, [('''', True)])"
  by (simp add: regTest_def)

lemma regTest_mismatch:
  "fn '''' True = (Val tt d, None) \<Longrightarrow> tt \<noteq> t \<Longrightarrow>
   regTest t fn funcs =
     (Return (Some (ErrorString (''test fail: expect return value type is '' @ typeString t
                    @ '', but got '' @ typeString tt))), funcs, [('''', True)])"
  by (simp add: regTest_def)

lemma regTest_calls: "snd (snd (regTest t fn funcs)) = [('''', True)]"
proof (cases "fn '''' True")
  case (Pair vv e)
  show ?thesis
  proof (cases e)
    case (Some err)
    with Pair have "fn '''' True = (vv, Some err)" by simp
    then show ?thesis by (simp add: regTest_err)
  next
    case None
    show ?thesis
    proof (cases vv)
      case ZeroValue
      with Pair None have "fn '''' True = (ZeroValue, None)" by simp
      then show ?thesis by (simp add: regTest_zero)
    next
      case (Val tt d)
      with Pair None have v: "fn '''' True = (Val tt d, None)" by simp
      show ?thesis
      proof (cases "tt = t")
        case True
        with v have "fn '''' True = (Val t d, None)" by simp
        then show ?thesis by (simp add: regTest_ok)
      next
        case False
        from regTest_mismatch [where fn = fn, OF v False] show ?thesis by simp
      qed
    qed
  qed
qed

lemma regTest_success:
  assumes "regTest t fn funcs = (Return None, funcs', cs)"
  shows "(\<exists>d. fn '''' True = (Val t d, None)) \<and> funcs' = funcs(t \<mapsto> fn)"
proof (cases "fn '''' True")
  case (Pair vv e)
  show ?thesis
  proof (cases e)
    case (Some err)
    with Pair have "fn '''' True = (vv, Some err)" by simp
    from regTest_err [where fn = fn, OF this] assms show ?thesis by simp
  next
    case None
    show ?thesis
    proof (cases vv)
      case ZeroValue
      with Pair None have "fn '''' True = (ZeroValue, None)" by simp
      from regTest_zero [where fn = fn, OF this] assms show ?thesis by simp
    next
      case (Val tt d)
      with Pair None have v: "fn '''' True = (Val tt d, None)" by simp
      show ?thesis
      proof (cases "tt = t")
        case True
        with v have v': "fn '''' True = (Val t d, None)" by simp
        from regTest_ok [where fn = fn, OF v'] assms have "funcs' = funcs(t \<mapsto> fn)" by simp
        with v' show ?thesis by blast
      next
        case False
        from regTest_mismatch [where fn = fn, OF v False] assms show ?thesis by simp
      qed
    qed
  qed
qed

lemma regTest_failure:
  assumes "regTest t fn funcs = (r, funcs', cs)" and "r \<noteq> Return None"
  shows "funcs' = funcs"
proof (cases "fn '''' True")
  case (Pair vv e)
  show ?thesis
  proof (cases e)
    case (Some err)
    with Pair have "fn '''' True = (vv, Some err)" by simp
    from regTest_err [where fn = fn, OF this] assms show ?thesis by simp
  next
    case None
    show ?thesis
    proof (cases vv)
      case ZeroValue
      with Pair None have "fn '''' True = (ZeroValue, None)" by simp
      from regTest_zero [where fn = fn, OF this] assms show ?thesis by simp
    next
      case (Val tt d)
      with Pair None have v: "fn '''' True = (Val tt d, None)" by simp
      show ?thesis
      proof (cases "tt = t")
        case True
        with v have v': "fn '''' True = (Val t d, None)" by simp
        from regTest_ok [where fn = fn, OF v'] assms show ?thesis by simp
      next
        case False
        from regTest_mismatch [where fn = fn, OF v False] assms show ?thesis by simp
      qed
    qed
  qed
qed

lemma RegTypeUnmarshal_rejected:
  assumes "t \<in> ran kindTypeMap \<or> Kind t = Ptr"
  shows "\<exists>err. RegTypeUnmarshal t fn funcs = (Return (Some err), funcs, [])"
proof -
  from assms consider (b) "t \<in> ran kindTypeMap" | (p) "t \<notin> ran kindTypeMap" "Kind t = Ptr" by blast
  then show ?thesis
  proof cases
    case b
    show ?thesis unfolding RegTypeUnmarshal_def
      using kindTypeMap_ran_self [OF b] kindTypeMap_ran_kind [OF b] by simp
  next
    case p
    then show ?thesis unfolding RegTypeUnmarshal_def by simp
  qed
qed

text \<open>
  Claim C4. Registering a converter for a type that is one of the fourteen built-in
  scalar types of \<open>kindTypeMap\<close> (string, bool, the signed and unsigned integers of
  every standard width, float32, float64), or for a type of kind pointer, returns an
  error; the registry is the one before the call and the converter is not called.
\<close>

theorem RegTypeUnmarshal_rejects_basic_and_pointer:
  "(t \<in> ran kindTypeMap \<longrightarrow>
      RegTypeUnmarshal t fn funcs =
        (Return (Some (ErrorString ''registration type cannot be a basic type'')), funcs, []))
   \<and> (Kind t = Ptr \<longrightarrow>
      RegTypeUnmarshal t fn funcs =
        (Return (Some (ErrorString ''registration type cannot be a pointer type'')), funcs, []))
   \<and> ran kindTypeMap =
       {RType String ''string'' 0, RType Bool ''bool'' 0, RType Float32 ''float32'' 0,
        RType Float64 ''float64'' 0, RType IntKind ''int'' 0, RType Int64 ''int64'' 0,
        RType Int32 ''int32'' 0, RType Int16 ''int16'' 0, RType Int8 ''int8'' 0,
        RType Uint ''uint'' 0, RType Uint64 ''uint64'' 0, RType Uint32 ''uint32'' 0,
        RType Uint16 ''uint16'' 0, RType Uint8 ''uint8'' 0}"
proof (intro conjI impI)
  assume b: "t \<in> ran kindTypeMap"
  show "RegTypeUnmarshal t fn funcs =
        (Return (Some (ErrorString ''registration type cannot be a basic type'')), funcs, [])"
    unfolding RegTypeUnmarshal_def
    using kindTypeMap_ran_self [OF b] kindTypeMap_ran_kind [OF b] by simp
next
  assume "Kind t = Ptr"
  then show "RegTypeUnmarshal t fn funcs =
        (Return (Some (ErrorString ''registration type cannot be a pointer type'')), funcs, [])"
    unfolding RegTypeUnmarshal_def by simp
qed (rule ran_kindTypeMap)

text \<open>
  The string type and a pointer type, with a converter that would pass the self-test.
\<close>

theorem RegTypeUnmarshal_rejects_basic_and_pointer_witness:
  "RType String ''string'' 0 \<in> ran kindTypeMap
   \<and> RegTypeUnmarshal (RType String ''string'' 0) (\<lambda>s b. (Val (RType String ''string'' 0) s, None))
        Map.empty
      = (Return (Some (ErrorString ''registration type cannot be a basic type'')), Map.empty, [])
   \<and> Kind (RType Ptr ''*main.T'' 0) = Ptr
   \<and> RegTypeUnmarshal (RType Ptr ''*main.T'' 0) (\<lambda>s b. (Val (RType Ptr ''*main.T'' 0) s, None))
        Map.empty
      = (Return (Some (ErrorString ''registration type cannot be a pointer type'')), Map.empty, [])"
  using RegTypeUnmarshal_rejects_basic_and_pointer
          [of "RType String ''string'' 0" "\<lambda>s b. (Val (RType String ''string'' 0) s, None)" Map.empty]
        RegTypeUnmarshal_rejects_basic_and_pointer
          [of "RType Ptr ''*main.T'' 0" "\<lambda>s b. (Val (RType Ptr ''*main.T'' 0) s, None)" Map.empty]
  by (simp add: ran_kindTypeMap)

text \<open>
  Claim C5. A registration calls the converter at most once, and exactly once, with the
  empty string and loose-zero mode true, when the type passes the kind check. It succeeds
  only if that call returned no error and a value of exactly the registered type (the
  same type, not one of the same kind and printed name), and then stores the converter; whenever it does not succeed (an error of the converter, a
  value of another type, the zero Value, a rejected type) the registry is unchanged.
\<close>

theorem RegTypeUnmarshal_self_test:
  "(RegTypeUnmarshal t fn funcs = (Return None, funcs', cs) \<longrightarrow>
      cs = [('''', True)] \<and> (\<exists>d. fn '''' True = (Val t d, None)) \<and> funcs' = funcs(t \<mapsto> fn))
   \<and> (RegTypeUnmarshal t fn funcs = (r, funcs', cs) \<longrightarrow> r \<noteq> Return None \<longrightarrow> funcs' = funcs)
   \<and> length (snd (snd (RegTypeUnmarshal t fn funcs))) \<le> 1
   \<and> (t \<notin> ran kindTypeMap \<longrightarrow> Kind t \<noteq> Ptr \<longrightarrow>
        snd (snd (RegTypeUnmarshal t fn funcs)) = [('''', True)]
        \<and> (fn '''' True = (Val t d, None) \<longrightarrow>
             RegTypeUnmarshal t fn funcs = (Return None, funcs(t \<mapsto> fn), [('''', True)]))
        \<and> (fn '''' True = (vv, Some err) \<longrightarrow>
             RegTypeUnmarshal t fn funcs =
               (Return (Some (ErrorString (''test fail: '' @ errorText err))), funcs,
                [('''', True)]))
        \<and> (fn '''' True = (Val tt d, None) \<longrightarrow> tt \<noteq> t \<longrightarrow>
             RegTypeUnmarshal t fn funcs =
               (Return (Some (ErrorString
                  (''test fail: expect return value type is '' @ typeString t
                    @ '', but got '' @ typeString tt))), funcs, [('''', True)]))
        \<and> (fn '''' True = (ZeroValue, None) \<longrightarrow>
             RegTypeUnmarshal t fn funcs = (Panic PanicReflect, funcs, [('''', True)])))"
proof -
  have rej: "\<exists>err. RegTypeUnmarshal t fn funcs = (Return (Some err), funcs, [])"
    if "t \<in> ran kindTypeMap \<or> Kind t = Ptr"
    using that by (rule RegTypeUnmarshal_rejected)
  have chk: "RegTypeUnmarshal t fn funcs = regTest t fn funcs"
    if "\<not> (t \<in> ran kindTypeMap \<or> Kind t = Ptr)"
    using that by (simp add: RegTypeUnmarshal_checked)
  have 1: "cs = [('''', True)] \<and> (\<exists>d. fn '''' True = (Val t d, None)) \<and> funcs' = funcs(t \<mapsto> fn)"
    if s: "RegTypeUnmarshal t fn funcs = (Return None, funcs', cs)"
  proof (cases "t \<in> ran kindTypeMap \<or> Kind t = Ptr")
    case True
    from rej [OF True] s show ?thesis by auto
  next
    case False
    from chk [OF False] s have e: "regTest t fn funcs = (Return None, funcs', cs)" by simp
    from regTest_calls [of t fn funcs] e have "cs = [('''', True)]" by simp
    with regTest_success [OF e] show ?thesis by simp
  qed
  have 2: "funcs' = funcs"
    if s: "RegTypeUnmarshal t fn funcs = (r, funcs', cs)" and n: "r \<noteq> Return None"
  proof (cases "t \<in> ran kindTypeMap \<or> Kind t = Ptr")
    case True
    from rej [OF True] s show ?thesis by auto
  next
    case False
    from chk [OF False] s have "regTest t fn funcs = (r, funcs', cs)" by simp
    from regTest_failure [OF this n] show ?thesis .
  qed
  have 3: "length (snd (snd (RegTypeUnmarshal t fn funcs))) \<le> 1"
  proof (cases "t \<in> ran kindTypeMap \<or> Kind t = Ptr")
    case True
    from rej [OF True] show ?thesis by auto
  next
    case False
    from chk [OF False] regTest_calls [of t fn funcs] show ?thesis by simp
  qed
  have 4: "snd (snd (RegTypeUnmarshal t fn funcs)) = [('''', True)]"
    if "t \<notin> ran kindTypeMap" "Kind t \<noteq> Ptr"
    using RegTypeUnmarshal_checked [OF that, of fn funcs] regTest_calls [of t fn funcs] by simp
  have c: "RegTypeUnmarshal t fn funcs = regTest t fn funcs"
    if "t \<notin> ran kindTypeMap" "Kind t \<noteq> Ptr"
    using that by (rule RegTypeUnmarshal_checked)
  show ?thesis
  proof (intro conjI impI)
    assume "RegTypeUnmarshal t fn funcs = (Return None, funcs', cs)"
    from 1 [OF this]
    show "cs = [('''', True)]" and "\<exists>d. fn '''' True = (Val t d, None)"
      and "funcs' = funcs(t \<mapsto> fn)"
      by blast+
  next
    assume "RegTypeUnmarshal t fn funcs = (r, funcs', cs)" and "r \<noteq> Return None"
    then show "funcs' = funcs" by (rule 2)
  next
    show "length (snd (snd (RegTypeUnmarshal t fn funcs))) \<le> 1" by (rule 3)
  next
    assume "t \<notin> ran kindTypeMap" and "Kind t \<noteq> Ptr"
    then show "snd (snd (RegTypeUnmarshal t fn funcs)) = [('''', True)]" by (rule 4)
  next
    assume a: "t \<notin> ran kindTypeMap" "Kind t \<noteq> Ptr" and v: "fn '''' True = (Val t d, None)"
    from regTest_ok [where fn = fn, OF v] c [OF a]
    show "RegTypeUnmarshal t fn funcs = (Return None, funcs(t \<mapsto> fn), [('''', True)])"
      by simp
  next
    assume a: "t \<notin> ran kindTypeMap" "Kind t \<noteq> Ptr" and v: "fn '''' True = (vv, Some err)"
    from regTest_err [where fn = fn, OF v] c [OF a]
    show "RegTypeUnmarshal t fn funcs =
            (Return (Some (ErrorString (''test fail: '' @ errorText err))), funcs, [('''', True)])"
      by simp
  next
    assume a: "t \<notin> ran kindTypeMap" "Kind t \<noteq> Ptr" and v: "fn '''' True = (Val tt d, None)"
      and n: "tt \<noteq> t"
    from regTest_mismatch [where fn = fn, OF v n] c [OF a]
    show "RegTypeUnmarshal t fn funcs =
            (Return (Some (ErrorString
               (''test fail: expect return value type is '' @ typeString t
                 @ '', but got '' @ typeString tt))), funcs, [('''', True)])"
      by simp
  next
    assume a: "t \<notin> ran kindTypeMap" "Kind t \<noteq> Ptr" and v: "fn '''' True = (ZeroValue, None)"
    from regTest_zero [where fn = fn, OF v] c [OF a]
    show "RegTypeUnmarshal t fn funcs = (Panic PanicReflect, funcs, [('''', True)])"
      by simp
  qed
qed

text \<open>
  A struct type with a converter that passes the self-test and one that fails it, and a
  converter whose value is of another type that prints like the registered one: the
  registration fails and the registry is unchanged.
\<close>

theorem RegTypeUnmarshal_self_test_witness:
  "RType Struct ''main.Money'' 0 \<notin> ran kindTypeMap
   \<and> Kind (RType Struct ''main.Money'' 0) \<noteq> Ptr
   \<and> RegTypeUnmarshal (RType Struct ''main.Money'' 0)
        (\<lambda>s b. (Val (RType Struct ''main.Money'' 0) (0::nat), None)) Map.empty
      = (Return None,
         [RType Struct ''main.Money'' 0 \<mapsto> (\<lambda>s b. (Val (RType Struct ''main.Money'' 0) 0, None))],
         [('''', True)])
   \<and> RegTypeUnmarshal (RType Struct ''main.Money'' 0)
        (\<lambda>s b. (ZeroValue :: nat rvalue, Some (ErrorString ''bad''))) Map.empty
      = (Return (Some (ErrorString ''test fail: bad'')), Map.empty, [('''', True)])
   \<and> RType Struct ''binding.T'' 2 \<noteq> RType Struct ''binding.T'' 1
   \<and> RegTypeUnmarshal (RType Struct ''binding.T'' 1)
        (\<lambda>s b. (Val (RType Struct ''binding.T'' 2) (0::nat), None)) Map.empty
      = (Return (Some (ErrorString
            ''test fail: expect return value type is binding.T, but got binding.T'')),
         Map.empty, [('''', True)])"
proof -
  let ?t = "RType Struct ''main.Money'' 0"
  let ?good = "\<lambda>(s::string) (b::bool). (Val ?t (0::nat), None :: error option)"
  let ?bad = "\<lambda>(s::string) (b::bool). (ZeroValue :: nat rvalue, Some (ErrorString ''bad''))"
  let ?t1 = "RType Struct ''binding.T'' 1"
  let ?t2 = "RType Struct ''binding.T'' 2"
  let ?other = "\<lambda>(s::string) (b::bool). (Val ?t2 (0::nat), None :: error option)"
  have t1: "?t \<notin> ran kindTypeMap" by (simp add: ran_kindTypeMap)
  have t2: "Kind ?t \<noteq> Ptr" by simp
  have g: "?good '''' True = (Val ?t 0, None)" by simp
  have b: "?bad '''' True = (ZeroValue, Some (ErrorString ''bad''))" by simp
  from RegTypeUnmarshal_self_test
         [of ?t ?good Map.empty Map.empty "[]" "Return None" 0 ZeroValue "ErrorString ''bad''" ?t]
       t1 t2 g
  have 1: "RegTypeUnmarshal ?t ?good Map.empty = (Return None, [?t \<mapsto> ?good], [('''', True)])"
    by blast
  from RegTypeUnmarshal_self_test
         [of ?t ?bad Map.empty Map.empty "[]" "Return None" 0 ZeroValue "ErrorString ''bad''" ?t]
       t1 t2 b
  have "RegTypeUnmarshal ?t ?bad Map.empty
          = (Return (Some (ErrorString (''test fail: '' @ errorText (ErrorString ''bad'')))),
             Map.empty, [('''', True)])"
    by blast
  then have 2: "RegTypeUnmarshal ?t ?bad Map.empty
          = (Return (Some (ErrorString ''test fail: bad'')), Map.empty, [('''', True)])"
    by simp
  have u1: "?t1 \<notin> ran kindTypeMap" by (simp add: ran_kindTypeMap)
  have u2: "Kind ?t1 \<noteq> Ptr" by simp
  have o: "?other '''' True = (Val ?t2 0, None)" by simp
  have d: "?t2 \<noteq> ?t1" by simp
  from RegTypeUnmarshal_self_test
         [of ?t1 ?other Map.empty Map.empty "[]" "Return None" 0 ZeroValue "ErrorString ''bad''" ?t2]
       u1 u2 o d
  have "RegTypeUnmarshal ?t1 ?other Map.empty
          = (Return (Some (ErrorString
               (''test fail: expect return value type is '' @ typeString ?t1
                 @ '', but got '' @ typeString ?t2))), Map.empty, [('''', True)])"
    by blast
  then have 3: "RegTypeUnmarshal ?t1 ?other Map.empty
      = (Return (Some (ErrorString
            ''test fail: expect return value type is binding.T, but got binding.T'')),
         Map.empty, [('''', True)])"
    by simp
  from t1 t2 1 2 d 3 show ?thesis by blast
qed

subsection \<open>Slices\<close>

lemma unmarshalSlice_loop_all_ok:
  assumes "\<forall>s\<in>set a. \<exists>tt d. fn s lz = (Val tt d, None) \<and> asg tt t"
  shows "unmarshalSlice_loop asg fn t lz v a = Return (v @ map (\<lambda>s. fst (fn s lz)) a, None)"
  using assms
proof (induction a arbitrary: v)
  case Nil
  show ?case by simp
next
  case (Cons s a)
  from Cons.prems obtain tt d where s: "fn s lz = (Val tt d, None)" "asg tt t" by auto
  from Cons.prems have "\<forall>s\<in>set a. \<exists>tt d. fn s lz = (Val tt d, None) \<and> asg tt t" by simp
  from Cons.IH [OF this] s show ?case by simp
qed

lemma unmarshalSlice_loop_first_error:
  assumes "\<forall>x\<in>set pre. \<exists>tt d. fn x lz = (Val tt d, None) \<and> asg tt t"
    and "snd (fn s lz) = Some err"
  shows "unmarshalSlice_loop asg fn t lz v (pre @ s # post)
           = Return (v @ map (\<lambda>x. fst (fn x lz)) pre, Some err)"
  using assms(1)
proof (induction pre arbitrary: v)
  case Nil
  from assms(2) show ?case by (cases "fn s lz"; cases "fst (fn s lz)") simp_all
next
  case (Cons x pre)
  from Cons.prems obtain tt d where x: "fn x lz = (Val tt d, None)" "asg tt t" by auto
  from Cons.prems have "\<forall>x\<in>set pre. \<exists>tt d. fn x lz = (Val tt d, None) \<and> asg tt t" by simp
  from Cons.IH [OF this] x show ?case by simp
qed

text \<open>
  Claim C6. A conversion succeeds on an input string when the converter returns no error
  and a value that can be appended to a slice of the element type. When every conversion
  succeeds, \<^verbatim>\<open>unmarshalSlice\<close> returns the converted values in the order of the input,
  one per input string. At the first input string whose conversion returns an error it
  stops and returns that error, with the values converted before it.
\<close>

theorem unmarshalSlice_in_order_fail_fast:
  "((\<forall>s\<in>set a. \<exists>tt d. fn s lz = (Val tt d, None) \<and> assignable tt t) \<longrightarrow>
      unmarshalSlice assignable fn t a lz = Return (map (\<lambda>s. fst (fn s lz)) a, None))
   \<and> (a = pre @ s # post \<longrightarrow>
        (\<forall>x\<in>set pre. \<exists>tt d. fn x lz = (Val tt d, None) \<and> assignable tt t) \<longrightarrow>
        snd (fn s lz) = Some err \<longrightarrow>
        unmarshalSlice assignable fn t a lz = Return (map (\<lambda>x. fst (fn x lz)) pre, Some err))"
proof (intro conjI impI)
  assume "\<forall>s\<in>set a. \<exists>tt d. fn s lz = (Val tt d, None) \<and> assignable tt t"
  then show "unmarshalSlice assignable fn t a lz = Return (map (\<lambda>s. fst (fn s lz)) a, None)"
    by (simp add: unmarshalSlice_def unmarshalSlice_loop_all_ok)
next
  assume a: "a = pre @ s # post"
    and ok: "\<forall>x\<in>set pre. \<exists>tt d. fn x lz = (Val tt d, None) \<and> assignable tt t"
    and e: "snd (fn s lz) = Some err"
  from ok e
  have "unmarshalSlice_loop assignable fn t lz [] (pre @ s # post)
          = Return ([] @ map (\<lambda>x. fst (fn x lz)) pre, Some err)"
    by (rule unmarshalSlice_loop_first_error [where fn = fn])
  with a show "unmarshalSlice assignable fn t a lz = Return (map (\<lambda>x. fst (fn x lz)) pre, Some err)"
    by (simp add: unmarshalSlice_def)
qed

text \<open>
  A repeated element is kept, and the element after the failing one is not converted.
\<close>

theorem unmarshalSlice_in_order_fail_fast_witness:
  "unmarshalSlice (=)
     (\<lambda>s b. if s = ''x'' then (ZeroValue, Some (ErrorString ''bad''))
             else (Val (RType String ''string'' 0) s, None))
     (RType String ''string'' 0) [''b'', ''a'', ''b''] False
     = Return ([Val (RType String ''string'' 0) ''b'', Val (RType String ''string'' 0) ''a'',
                Val (RType String ''string'' 0) ''b''], None)
   \<and> unmarshalSlice (=)
     (\<lambda>s b. if s = ''x'' then (ZeroValue, Some (ErrorString ''bad''))
             else (Val (RType String ''string'' 0) s, None))
     (RType String ''string'' 0) [''b'', ''a'', ''x'', ''c''] False
     = Return ([Val (RType String ''string'' 0) ''b'', Val (RType String ''string'' 0) ''a''],
               Some (ErrorString ''bad''))"
proof -
  let ?t = "RType String ''string'' 0"
  let ?fn = "\<lambda>s (b::bool). if s = ''x'' then (ZeroValue, Some (ErrorString ''bad''))
                          else (Val ?t s, None)"
  have h1: "\<forall>s\<in>set [''b'', ''a'', ''b'']. \<exists>tt d. ?fn s False = (Val tt d, None) \<and> tt = ?t"
    by simp
  from unmarshalSlice_in_order_fail_fast
         [of "[''b'', ''a'', ''b'']" ?fn False "(=)" ?t "[]" "''b''" "[''a'', ''b'']"
             "ErrorString ''bad''"] h1
  have 1: "unmarshalSlice (=) ?fn ?t [''b'', ''a'', ''b''] False
             = Return (map (\<lambda>s. fst (?fn s False)) [''b'', ''a'', ''b''], None)"
    by blast
  have pre: "\<forall>x\<in>set [''b'', ''a'']. \<exists>tt d. ?fn x False = (Val tt d, None) \<and> tt = ?t" by simp
  have e: "snd (?fn ''x'' False) = Some (ErrorString ''bad'')" by simp
  have sp: "[''b'', ''a'', ''x'', ''c''] = [''b'', ''a''] @ ''x'' # [''c'']" by simp
  from unmarshalSlice_in_order_fail_fast
         [of "[''b'', ''a'', ''x'', ''c'']" ?fn False "(=)" ?t "[''b'', ''a'']" "''x''" "[''c'']"
             "ErrorString ''bad''"] sp pre e
  have 2: "unmarshalSlice (=) ?fn ?t [''b'', ''a'', ''x'', ''c''] False
             = Return (map (\<lambda>x. fst (?fn x False)) [''b'', ''a''], Some (ErrorString ''bad''))"
    by blast
  from 1 2 show ?thesis by simp
qed

subsection \<open>The converter of time.Time\<close>

lemma timeType_checked: "timeType \<notin> ran kindTypeMap" "Kind timeType \<noteq> Ptr"
  by (simp_all add: ran_kindTypeMap timeType_def)

text \<open>
  Claim C10. \<^verbatim>\<open>init\<close> registers a converter for \<^verbatim>\<open>time.Time\<close> and does not panic. The
  converter answers the empty string in loose-zero mode with the zero time; every other
  input is parsed as RFC3339, giving the parsed time, or the parser's error together
  with the zero Value.
\<close>

theorem init_registers_time_converter:
  "init parse zero funcs
     = (Return (), funcs(timeType \<mapsto> timeUnmarshal parse zero), [('''', True)])
   \<and> timeUnmarshal parse zero '''' True = (Val timeType zero, None)
   \<and> (\<not> (v = '''' \<and> emptyAsZero) \<longrightarrow> parse v = Inr tm \<longrightarrow>
        timeUnmarshal parse zero v emptyAsZero = (Val timeType tm, None))
   \<and> (\<not> (v = '''' \<and> emptyAsZero) \<longrightarrow> parse v = Inl err \<longrightarrow>
        timeUnmarshal parse zero v emptyAsZero = (ZeroValue, Some err))"
proof (intro conjI impI)
  have z: "timeUnmarshal parse zero '''' True = (Val timeType zero, None)"
    by (simp add: timeUnmarshal_def)
  then show "timeUnmarshal parse zero '''' True = (Val timeType zero, None)" .
  have "RegTypeUnmarshal timeType (timeUnmarshal parse zero) funcs
          = regTest timeType (timeUnmarshal parse zero) funcs"
    by (rule RegTypeUnmarshal_checked) (rule timeType_checked)+
  also have "\<dots> = (Return None, funcs(timeType \<mapsto> timeUnmarshal parse zero), [('''', True)])"
    using z by (rule regTest_ok)
  finally show "init parse zero funcs
     = (Return (), funcs(timeType \<mapsto> timeUnmarshal parse zero), [('''', True)])"
    by (simp add: init_def MustRegTypeUnmarshal_def)
next
  assume "\<not> (v = '''' \<and> emptyAsZero)" and "parse v = Inr tm"
  then show "timeUnmarshal parse zero v emptyAsZero = (Val timeType tm, None)"
    by (auto simp: timeUnmarshal_def)
next
  assume "\<not> (v = '''' \<and> emptyAsZero)" and "parse v = Inl err"
  then show "timeUnmarshal parse zero v emptyAsZero = (ZeroValue, Some err)"
    by (auto simp: timeUnmarshal_def)
qed

text \<open>
  A valid time, an invalid one, and the empty string outside loose-zero mode.
\<close>

theorem init_registers_time_converter_witness:
  "(\<lambda>s. if s = ''2006-01-02T15:04:05Z'' then Inr (1136214245::int)
          else Inl (ErrorString ''cannot parse'')) ''2006-01-02T15:04:05Z'' = Inr 1136214245
   \<and> timeUnmarshal
        (\<lambda>s. if s = ''2006-01-02T15:04:05Z'' then Inr (1136214245::int)
              else Inl (ErrorString ''cannot parse'')) 0 ''2006-01-02T15:04:05Z'' True
      = (Val timeType 1136214245, None)
   \<and> timeUnmarshal
        (\<lambda>s. if s = ''2006-01-02T15:04:05Z'' then Inr (1136214245::int)
              else Inl (ErrorString ''cannot parse'')) 0 ''yesterday'' True
      = (ZeroValue, Some (ErrorString ''cannot parse''))
   \<and> timeUnmarshal
        (\<lambda>s. if s = ''2006-01-02T15:04:05Z'' then Inr (1136214245::int)
              else Inl (ErrorString ''cannot parse'')) 0 '''' False
      = (ZeroValue, Some (ErrorString ''cannot parse''))"
proof -
  let ?parse = "\<lambda>s. if s = ''2006-01-02T15:04:05Z'' then Inr (1136214245::int)
                    else Inl (ErrorString ''cannot parse'')"
  have p1: "?parse ''2006-01-02T15:04:05Z'' = Inr 1136214245" by simp
  have p2: "?parse ''yesterday'' = Inl (ErrorString ''cannot parse'')" by simp
  have p3: "?parse '''' = Inl (ErrorString ''cannot parse'')" by simp
  have n1: "\<not> (''2006-01-02T15:04:05Z'' = '''' \<and> True)" by simp
  have n2: "\<not> (''yesterday'' = '''' \<and> True)" by simp
  have n3: "\<not> ('''' = '''' \<and> False)" by simp
  from init_registers_time_converter
         [of ?parse 0 Map.empty "''2006-01-02T15:04:05Z''" True 1136214245
             "ErrorString ''cannot parse''"] n1 p1
  have 1: "timeUnmarshal ?parse 0 ''2006-01-02T15:04:05Z'' True = (Val timeType 1136214245, None)"
    by blast
  from init_registers_time_converter
         [of ?parse 0 Map.empty "''yesterday''" True 1136214245 "ErrorString ''cannot parse''"]
       n2 p2
  have 2: "timeUnmarshal ?parse 0 ''yesterday'' True = (ZeroValue, Some (ErrorString ''cannot parse''))"
    by blast
  from init_registers_time_converter
         [of ?parse 0 Map.empty "''''" False 1136214245 "ErrorString ''cannot parse''"]
       n3 p3
  have 3: "timeUnmarshal ?parse 0 '''' False = (ZeroValue, Some (ErrorString ''cannot parse''))"
    by blast
  from p1 1 2 3 show ?thesis by blast
qed

section \<open>The receiver (receiver.go)\<close>

text \<open>
  Every source kind indexes the arrays of length \<open>maxIn\<close> in range, and \<open>allIn\<close> lists
  the source kinds in the order of their numbers.
\<close>

lemma inValue_lt_maxIn: "inValue k < maxIn"
  by (cases k) (simp_all add: maxIn_def)

lemma allIn_in_order: "map inValue allIn = [0..<maxIn]"
  by (simp add: allIn_def maxIn_def upt_rec)

text \<open>
  Claim C2. \<^verbatim>\<open>getBody\<close> on a request whose body cannot be read: \<^verbatim>\<open>copyBody\<close> returns
  an error, and \<^verbatim>\<open>getBody\<close> returns the nil error in its place.
\<close>

theorem getBody_drops_read_error:
  "getBody (\<lambda>req. (([], Some (ErrorString ''unexpected EOF'')), req))
     \<lparr>hasQuery = False, hasCookie = False, hasPath = False, hasBody = True, hasVd = False,
      params = ([] :: bindingError paramInfo list)\<rparr>
     \<lparr>URLQuery = [], Cookies = [], PostForm = None, Form = None, Body = ()\<rparr>
   = (([], '''', None),
      \<lparr>URLQuery = [], Cookies = [], PostForm = None, Form = None, Body = ()\<rparr>, [ReadBody])"
  by (simp add: getBody_def)

lemma getBody_never_fails: "snd (snd (fst (getBody copyBody r req))) = None"
  by (simp add: getBody_def split: prod.splits)

text \<open>
  Claim C8. With the protobuf codec, a record that does not implement the message
  contract gets the error "protobuf content type is not supported" and is not decoded;
  one that implements it is decoded, and what the decoder returns is returned as it is.
  The protobuf decoder is called for no other codec.
\<close>

theorem prebindBody_protobuf:
  "(\<not> isMessage \<longrightarrow>
      prebindBody jsonAssign protoUnmarshal isMessage value bodyProtobuf bodyBytes
        = (Some (ErrorString ''protobuf content type is not supported''), value, []))
   \<and> (isMessage \<longrightarrow>
        prebindBody jsonAssign protoUnmarshal isMessage value bodyProtobuf bodyBytes
          = (fst (protoUnmarshal bodyBytes value), snd (protoUnmarshal bodyBytes value),
             [ProtoUnmarshal]))
   \<and> (ProtoUnmarshal \<in> set (snd (snd
          (prebindBody jsonAssign protoUnmarshal isMessage value bodyCodec bodyBytes))) \<longrightarrow>
        bodyCodec = bodyProtobuf \<and> isMessage)"
  by (cases "protoUnmarshal bodyBytes value"; cases "fst (protoUnmarshal bodyBytes value)")
     (auto simp: prebindBody_def bodyProtobuf_def bodyJSON_def)

text \<open>
  A record that is not a message, and a message whose decoding fails.
\<close>

theorem prebindBody_protobuf_witness:
  "prebindBody (\<lambda>s v. v) (\<lambda>b v. (Some (ErrorString ''proto: bad wire''), v)) False (0::nat)
      bodyProtobuf ''x''
     = (Some (ErrorString ''protobuf content type is not supported''), 0, [])
   \<and> prebindBody (\<lambda>s v. v) (\<lambda>b v. (Some (ErrorString ''proto: bad wire''), v)) True (0::nat)
      bodyProtobuf ''x''
     = (Some (ErrorString ''proto: bad wire''), 0, [ProtoUnmarshal])"
proof -
  let ?pu = "\<lambda>(b::bytes) (v::nat). (Some (ErrorString ''proto: bad wire''), v)"
  from prebindBody_protobuf [of False "\<lambda>s v. v" ?pu 0 "''x''" bodyProtobuf]
  have 1: "prebindBody (\<lambda>s v. v) ?pu False (0::nat) bodyProtobuf ''x''
     = (Some (ErrorString ''protobuf content type is not supported''), 0, [])" by blast
  from prebindBody_protobuf [of True "\<lambda>s v. v" ?pu 0 "''x''" bodyProtobuf]
  have 2: "prebindBody (\<lambda>s v. v) ?pu True (0::nat) bodyProtobuf ''x''
     = (Some (ErrorString ''proto: bad wire''), 0, [ProtoUnmarshal])" by simp
  from 1 2 show ?thesis by blast
qed

text \<open>
  Claim C9. A plan none of whose fields reads the query string (the cookies, the body)
  gets the empty result from \<^verbatim>\<open>getQuery\<close> (\<^verbatim>\<open>getCookies\<close>, \<^verbatim>\<open>getBody\<close> and
  \<^verbatim>\<open>getPostForm\<close>) and the request is not touched. The form is parsed only when the codec
  is the form codec and a field reads the body, and the body is read only when a field
  reads it.
\<close>

theorem accessors_skip_unread_sources:
  "(\<not> hasQuery r \<longrightarrow> getQuery r req = (None, []))
   \<and> (\<not> hasCookie r \<longrightarrow> getCookies r req = ([], []))
   \<and> (\<not> hasBody r \<longrightarrow> getBody copyBody r req = (([], '''', None), req, []))
   \<and> (\<not> hasBody r \<longrightarrow> getPostForm parseMultipartForm r req bodyCodec = ((None, None), req, []))
   \<and> (ParseForm \<in> set (snd (snd (getPostForm parseMultipartForm r req bodyCodec))) \<longrightarrow>
        bodyCodec = bodyForm \<and> hasBody r)
   \<and> (ReadBody \<in> set (snd (snd (getBody copyBody r req))) \<longrightarrow> hasBody r)"
  by (auto simp: getQuery_def getCookies_def getBody_def getPostForm_def Let_def
           split: if_splits prod.splits)

text \<open>
  A request with a query string, a cookie and a body, under a plan that reads none.
\<close>

theorem accessors_skip_unread_sources_witness:
  "getQuery
     \<lparr>hasQuery = False, hasCookie = False, hasPath = False, hasBody = False, hasVd = False,
      params = ([] :: bindingError paramInfo list)\<rparr>
     \<lparr>URLQuery = [(''a'', [''1''])], Cookies = [(''c'', ''2'')], PostForm = None, Form = None,
      Body = ''a=3''\<rparr> = (None, [])
   \<and> getCookies
     \<lparr>hasQuery = False, hasCookie = False, hasPath = False, hasBody = False, hasVd = False,
      params = ([] :: bindingError paramInfo list)\<rparr>
     \<lparr>URLQuery = [(''a'', [''1''])], Cookies = [(''c'', ''2'')], PostForm = None, Form = None,
      Body = ''a=3''\<rparr> = ([], [])
   \<and> getBody (\<lambda>req. ((Body req, None), req))
     \<lparr>hasQuery = False, hasCookie = False, hasPath = False, hasBody = False, hasVd = False,
      params = ([] :: bindingError paramInfo list)\<rparr>
     \<lparr>URLQuery = [(''a'', [''1''])], Cookies = [(''c'', ''2'')], PostForm = None, Form = None,
      Body = ''a=3''\<rparr>
     = (([], '''', None),
        \<lparr>URLQuery = [(''a'', [''1''])], Cookies = [(''c'', ''2'')], PostForm = None, Form = None,
         Body = ''a=3''\<rparr>, [])
   \<and> getPostForm (\<lambda>n req. req\<lparr>PostForm := Some [(''a'', [''3''])], Form := Some [(''a'', [''3''])]\<rparr>)
     \<lparr>hasQuery = False, hasCookie = False, hasPath = False, hasBody = False, hasVd = False,
      params = ([] :: bindingError paramInfo list)\<rparr>
     \<lparr>URLQuery = [(''a'', [''1''])], Cookies = [(''c'', ''2'')], PostForm = None, Form = None,
      Body = ''a=3''\<rparr> bodyForm
     = ((None, None),
        \<lparr>URLQuery = [(''a'', [''1''])], Cookies = [(''c'', ''2'')], PostForm = None, Form = None,
         Body = ''a=3''\<rparr>, [])"
proof -
  let ?r = "\<lparr>hasQuery = False, hasCookie = False, hasPath = False, hasBody = False, hasVd = False,
      params = ([] :: bindingError paramInfo list)\<rparr>"
  let ?req = "\<lparr>URLQuery = [(''a'', [''1''])], Cookies = [(''c'', ''2'')], PostForm = None,
      Form = None, Body = ''a=3''\<rparr>"
  let ?cb = "\<lambda>req :: string request. ((Body req, None :: error option), req)"
  let ?pf = "\<lambda>(n::nat) (req :: string request).
               req\<lparr>PostForm := Some [(''a'', [''3''])], Form := Some [(''a'', [''3''])]\<rparr>"
  have f: "\<not> hasQuery ?r" "\<not> hasCookie ?r" "\<not> hasBody ?r" by simp_all
  from accessors_skip_unread_sources [of ?r ?req ?cb ?pf bodyForm] f
  show ?thesis by blast
qed

subsection \<open>The diagnostic name of a descriptor\<close>

text \<open>
  Whatever the ancestors, the loop over \<^verbatim>\<open>paths\<close> leaves in \<^verbatim>\<open>namePath\<close> either what it
  held before or the name of one ancestor followed by a dot.
\<close>

lemma pathsLoop_keeps_one_name:
  "pathsLoop names k paths fs np = np
   \<or> (\<exists>fs'. namesAt names fs' k \<noteq> '''' \<and>
             pathsLoop names k paths fs np = namesAt names fs' k @ ''.'')"
proof (induction paths arbitrary: fs np)
  case Nil
  show ?case by simp
next
  case (Cons s paths)
  let ?fs = "if fs = '''' then s else JoinFieldSelector fs s"
  show ?case
  proof (cases "namesAt names ?fs k = ''''")
    case True
    with Cons.IH [of ?fs np] show ?thesis by (simp add: Let_def)
  next
    case False
    from Cons.IH [of ?fs "namesAt names ?fs k @ ''.''"] False
    show ?thesis by (auto simp: Let_def)
  qed
qed

text \<open>
  With at most one ancestor the loop computes the prefix the specification words.
\<close>

lemma pathsLoop_spec_prefix_one_ancestor:
  "length paths \<le> 1 \<Longrightarrow> pathsLoop names k paths '''' '''' = spec_prefix names k paths ''''"
  by (cases paths) (simp_all add: Let_def)

text \<open>
  Claim C7. The diagnostic name \<^verbatim>\<open>initParams\<close> computes for the field \<^verbatim>\<open>X.Y.Z\<close> of
  \<open>nestedQueryPlan\<close>, and the name with a prefix for each ancestor: the loop over the
  ancestors assigns the name of each ancestor to \<^verbatim>\<open>namePath\<close> where it would have to
  append it, so only the nearest ancestor is left.
\<close>

theorem initParams_namePath_three_deep:
  "map (\<lambda>p. map namePath (tagInfos p)) (params (initParams nestedQueryPlan))
     = [[], [], [''Y.z'']]
   \<and> spec_namePaths nestedQueryPlan = [[], [], [''X.Y.z'']]"
  by (simp add: nestedQueryPlan_def initParams_def spec_namePaths_def initNames_def
      nameArray_def allIn_def name_def initTagInfo_def Split_def JoinFieldSelector_def
      namesAt_def Let_def)

text \<open>
  Claim C3. The missing-required error \<^verbatim>\<open>initParams\<close> prepares for each descriptor of
  \<open>nestedRequiredPlan\<close>: the message is "missing required parameter"; the failing field
  of \<^verbatim>\<open>A.B.C\<close> is "b.c", and its qualified external name is "a.b.c".
\<close>

theorem initParams_requiredError_three_deep:
  "map (\<lambda>p. map requiredError (tagInfos p)) (params (initParams nestedRequiredPlan))
     = [[Some \<lparr>ErrType = ''binding failed'', FailField = ''a'',
                Msg = ''missing required parameter''\<rparr>],
        [Some \<lparr>ErrType = ''binding failed'', FailField = ''a.b'',
                Msg = ''missing required parameter''\<rparr>],
        [Some \<lparr>ErrType = ''binding failed'', FailField = ''b.c'',
                Msg = ''missing required parameter''\<rparr>]]
   \<and> spec_namePaths nestedRequiredPlan = [[''a''], [''a.b''], [''a.b.c'']]"
  by (simp add: nestedRequiredPlan_def initParams_def spec_namePaths_def initNames_def
      nameArray_def allIn_def name_def initTagInfo_def Split_def JoinFieldSelector_def
      namesAt_def Let_def defaultBindErrFactory_def)

section \<open>Fields with no source annotation\<close>

lemma firstPresent_append:
  "\<forall>k'\<in>set pre. sources k' key = None \<Longrightarrow>
   firstPresent sources key (pre @ ks) = firstPresent sources key ks"
  by (induction pre) simp_all

lemma firstPresent_Some_split:
  "firstPresent sources key ks = Some (k, vs) \<Longrightarrow>
   \<exists>pre post. ks = pre @ k # post \<and> (\<forall>k'\<in>set pre. sources k' key = None)
      \<and> sources k key = Some vs"
proof (induction ks)
  case Nil
  then show ?case by simp
next
  case (Cons a ks)
  show ?case
  proof (cases "sources a key")
    case None
    with Cons.prems have "firstPresent sources key ks = Some (k, vs)" by simp
    from Cons.IH [OF this] obtain pre post where
      "ks = pre @ k # post" "\<forall>k'\<in>set pre. sources k' key = None" "sources k key = Some vs"
      by blast
    with None have "a # ks = (a # pre) @ k # post \<and> (\<forall>k'\<in>set (a # pre). sources k' key = None)
        \<and> sources k key = Some vs" by simp
    then show ?thesis by blast
  next
    case (Some ws)
    with Cons.prems have "a = k" "ws = vs" by simp_all
    with Some have "a # ks = [] @ k # ks \<and> (\<forall>k'\<in>set []. sources k' key = None)
        \<and> sources k key = Some vs" by simp
    then show ?thesis by blast
  qed
qed

lemma firstPresent_Some_iff:
  "firstPresent sources key ks = Some (k, vs) \<longleftrightarrow>
   (\<exists>pre post. ks = pre @ k # post \<and> (\<forall>k'\<in>set pre. sources k' key = None)
      \<and> sources k key = Some vs)"
proof
  assume "firstPresent sources key ks = Some (k, vs)"
  then show "\<exists>pre post. ks = pre @ k # post \<and> (\<forall>k'\<in>set pre. sources k' key = None)
      \<and> sources k key = Some vs" by (rule firstPresent_Some_split)
next
  assume "\<exists>pre post. ks = pre @ k # post \<and> (\<forall>k'\<in>set pre. sources k' key = None)
      \<and> sources k key = Some vs"
  then obtain pre post where s: "ks = pre @ k # post" "\<forall>k'\<in>set pre. sources k' key = None"
      "sources k key = Some vs" by blast
  from firstPresent_append [where sources = sources and key = key and ks = "k # post", OF s(2)] s(1,3)
  show "firstPresent sources key ks = Some (k, vs)" by simp
qed

lemma firstPresent_None_iff:
  "firstPresent sources key ks = None \<longleftrightarrow> (\<forall>k\<in>set ks. sources k key = None)"
  by (induction ks) (auto split: option.splits)

text \<open>
  Claim C1. The priority order is the order in which the source kinds are declared. A
  field with no source annotation is bound from the first source of that order that has
  the field's identifier as a key, and from none when no source has it. When the query
  string and a header both have the key, the header's value is not the one bound, and the
  query string's is unless a path parameter has the key.
\<close>

theorem resolveAuto_priority_order:
  "autoOrder = filter (\<lambda>k. k \<in> set autoOrder) allIn
   \<and> (resolveAuto sources p = Some (k, vs) \<longleftrightarrow>
        (\<exists>pre post. autoOrder = pre @ k # post
           \<and> (\<forall>k'\<in>set pre. sources k' (Name (structField p)) = None)
           \<and> sources k (Name (structField p)) = Some vs))
   \<and> (resolveAuto sources p = None \<longleftrightarrow>
        (\<forall>k\<in>set autoOrder. sources k (Name (structField p)) = None))
   \<and> (sources query (Name (structField p)) = Some q \<longrightarrow>
        sources header (Name (structField p)) = Some h \<longrightarrow>
        resolveAuto sources p \<noteq> Some (header, h)
        \<and> (sources path (Name (structField p)) = None \<longrightarrow>
             resolveAuto sources p = Some (query, q)))"
proof (intro conjI impI)
  show "autoOrder = filter (\<lambda>k. k \<in> set autoOrder) allIn"
    by (simp add: autoOrder_def allIn_def)
  show "resolveAuto sources p = Some (k, vs) \<longleftrightarrow>
        (\<exists>pre post. autoOrder = pre @ k # post
           \<and> (\<forall>k'\<in>set pre. sources k' (Name (structField p)) = None)
           \<and> sources k (Name (structField p)) = Some vs)"
    unfolding resolveAuto_def by (rule firstPresent_Some_iff)
  show "resolveAuto sources p = None \<longleftrightarrow>
        (\<forall>k\<in>set autoOrder. sources k (Name (structField p)) = None)"
    unfolding resolveAuto_def by (rule firstPresent_None_iff)
next
  assume "sources query (Name (structField p)) = Some q"
  then show "resolveAuto sources p \<noteq> Some (header, h)"
    by (simp add: resolveAuto_def autoOrder_def split: option.splits)
next
  assume "sources query (Name (structField p)) = Some q"
    and "sources path (Name (structField p)) = None"
  then show "resolveAuto sources p = Some (query, q)"
    by (simp add: resolveAuto_def autoOrder_def)
qed

text \<open>
  A key in the query string and in a header.
\<close>

theorem resolveAuto_priority_order_witness:
  "(\<lambda>k. if k = query then [''id'' \<mapsto> [''7'']] else if k = header then [''id'' \<mapsto> [''9'']]
         else Map.empty) query ''id'' = Some [''7'']
   \<and> (\<lambda>k. if k = query then [''id'' \<mapsto> [''7'']] else if k = header then [''id'' \<mapsto> [''9'']]
         else Map.empty) header ''id'' = Some [''9'']
   \<and> resolveAuto
        (\<lambda>k. if k = query then [''id'' \<mapsto> [''7'']] else if k = header then [''id'' \<mapsto> [''9'']]
              else Map.empty)
        \<lparr>fieldSelector = ''id'', structField = \<lparr>Name = ''id'', Anonymous = False\<rparr>,
         tagInfos = [], bindErrFactory = defaultBindErrFactory\<rparr>
      = Some (query, [''7''])"
proof -
  let ?src = "\<lambda>k. if k = query then [''id'' \<mapsto> [''7'']] else if k = header then [''id'' \<mapsto> [''9'']]
                   else (Map.empty :: accessor)"
  let ?p = "\<lparr>fieldSelector = ''id'', structField = \<lparr>Name = ''id'', Anonymous = False\<rparr>,
             tagInfos = [], bindErrFactory = defaultBindErrFactory\<rparr>"
  have q: "?src query (Name (structField ?p)) = Some [''7'']" by simp
  have h: "?src header (Name (structField ?p)) = Some [''9'']" by simp
  have n: "?src path (Name (structField ?p)) = None" by simp
  from resolveAuto_priority_order [of ?src ?p query "[''7'']" "[''7'']" "[''9'']"] q h n
  have "resolveAuto ?src ?p = Some (query, [''7''])" by blast
  with q h show ?thesis by simp
qed

end
